theory Spec2Isabelle
  imports Main
begin

section \<open>Values shared by the whole copy engine\<close>

text \<open>
  Byte strings are lists of 8-bit characters. A digest (\<open>digest.Digest\<close>) is the string
  \<open>algorithm:hex\<close>; its zero value is the empty string. A Go slice that may be \<open>nil\<close>
  is an optional list: \<open>reflect.DeepEqual\<close> tells a nil slice from an empty one, and
  \<open>copy.go\<close> relies on \<open>DeepEqual\<close> twice.
\<close>

type_synonym bytes = string
type_synonym digest = string
type_synonym 'a slice = "'a list option"

definition elems :: "'a slice \<Rightarrow> 'a list" where
  \<comment> \<open>what \<open>range\<close> iterates over and \<open>len\<close> counts: a nil slice has no elements\<close>
  "elems s = (case s of None \<Rightarrow> [] | Some xs \<Rightarrow> xs)"

text \<open>
  Go errors. \<open>EOF\<close> is the sentinel \<open>io.EOF\<close>; \<open>ManifestTypeRejectedError\<close> is the
  error type of that name in package \<open>types\<close>; \<open>Opaque\<close> is any other error value a
  backend or library hands back; \<open>Errorf\<close> is an error made by \<open>errors.Errorf\<close>,
  \<open>errors.New\<close> or \<open>fmt.Errorf\<close>; \<open>Wrap\<close> is \<open>errors.Wrap\<close> around a cause.
  A nil error is \<open>None\<close>.
\<close>

datatype error =
    EOF
  | ManifestTypeRejectedError string
  | Opaque string
  | Errorf string
  | Wrap error string

fun Error :: "error \<Rightarrow> string" where
  \<comment> \<open>the \<open>Error()\<close> text, as \<open>%v\<close> prints it\<close>
  "Error EOF = ''EOF''"
| "Error (ManifestTypeRejectedError m) = m"
| "Error (Opaque m) = m"
| "Error (Errorf m) = m"
| "Error (Wrap e m) = m @ '': '' @ Error e"

fun Cause :: "error \<Rightarrow> error" where
  \<comment> \<open>\<open>errors.Cause\<close>: the innermost error of a chain of wraps\<close>
  "Cause (Wrap e m) = Cause e"
| "Cause e = e"

fun isManifestRejected :: "error \<Rightarrow> bool" where
  \<comment> \<open>the type assertion \<open>.(types.ManifestTypeRejectedError)\<close>\<close>
  "isManifestRejected (ManifestTypeRejectedError m) = True"
| "isManifestRejected e = False"

definition errors_Wrap :: "error option \<Rightarrow> string \<Rightarrow> error option" where
  \<comment> \<open>\<open>errors.Wrap\<close> and \<open>errors.Wrapf\<close>: wrapping nil gives nil\<close>
  "errors_Wrap err m = (case err of None \<Rightarrow> None | Some e \<Rightarrow> Some (Wrap e m))"

definition digitChar :: "nat \<Rightarrow> char" where
  "digitChar d =
     (if d = 0 then CHR ''0'' else if d = 1 then CHR ''1'' else if d = 2 then CHR ''2''
      else if d = 3 then CHR ''3'' else if d = 4 then CHR ''4'' else if d = 5 then CHR ''5''
      else if d = 6 then CHR ''6'' else if d = 7 then CHR ''7'' else if d = 8 then CHR ''8''
      else CHR ''9'')"

fun showNat :: "nat \<Rightarrow> string" where
  \<comment> \<open>decimal digits, as \<open>%d\<close> prints a non-negative number\<close>
  "showNat n = (if n < 10 then [digitChar n] else showNat (n div 10) @ [digitChar (n mod 10)])"

definition showInt :: "int \<Rightarrow> string" where
  "showInt i = (if i < 0 then ''-'' @ showNat (nat (- i)) else showNat (nat i))"

definition quote :: "string \<Rightarrow> string" where
  \<comment> \<open>\<open>%q\<close> on a string with nothing to escape\<close>
  "quote s = [CHR 0x22] @ s @ [CHR 0x22]"

record BlobInfo =
  Digest :: digest
  Size :: int
  URLs :: "string slice"
  MediaType :: string

definition BlobInfo0 :: BlobInfo where
  \<comment> \<open>the zero value \<open>types.BlobInfo{}\<close>\<close>
  "BlobInfo0 = \<lparr>Digest = [], Size = 0, URLs = None, MediaType = []\<rparr>"

section \<open>Byte streams\<close>

text \<open>
  An \<open>io.Reader\<close> handed over by a backend is given by what its \<open>Read\<close> calls will
  deliver: a sequence of bursts, each a run of bytes with the error (if any) that the
  reader reports together with the last byte of the run. \<open>Read\<close> with a buffer of
  \<open>n\<close> bytes returns at most \<open>n\<close> bytes of the current burst; a reader whose bursts are
  used up reports \<open>io.EOF\<close> from then on.
\<close>

type_synonym stream = "(bytes \<times> error option) list"

fun stream_Read :: "stream \<Rightarrow> nat \<Rightarrow> (bytes \<times> error option) \<times> stream" where
  "stream_Read [] n = (([], Some EOF), [])"
| "stream_Read ((d, e) # rest) n =
     (if length d \<le> n then ((d, e), rest) else ((take n d, None), (drop n d, e) # rest))"

definition bytes_NewReader :: "bytes \<Rightarrow> stream" where
  \<comment> \<open>\<open>bytes.NewReader\<close>: the bytes, then \<open>io.EOF\<close> on the read after the last byte\<close>
  "bytes_NewReader b = (if b = [] then [] else [(b, None)])"

section \<open>The digesting reader\<close>

text \<open>
  Package \<open>go-digest\<close> is a library: the hash functions, the syntax check of a digest
  and the list of available algorithms are parameters. \<open>hash.Hash.Write\<close> never fails
  and consumes its whole input; the digest of a digester is the hash of all bytes written.
\<close>

record digestlib =
  Validate :: "digest \<Rightarrow> error option"
  Available :: "string \<Rightarrow> bool"
  FromBytes :: "string \<Rightarrow> bytes \<Rightarrow> digest"

definition Algorithm :: "digest \<Rightarrow> string" where
  "Algorithm d = takeWhile (\<lambda>c. c \<noteq> CHR '':'') d"

record Digester =
  algorithm :: string
  written :: bytes

definition Hash_Write :: "Digester \<Rightarrow> bytes \<Rightarrow> (nat \<times> error option) \<times> Digester" where
  "Hash_Write h p = ((length p, None), h\<lparr>written := written h @ p\<rparr>)"

definition Digester_Digest :: "digestlib \<Rightarrow> Digester \<Rightarrow> digest" where
  "Digester_Digest D h = FromBytes D (algorithm h) (written h)"

record digestingReader =
  source :: stream
  digester :: Digester
  expectedDigest :: digest
  validationFailed :: bool

definition newDigestingReader :: "digestlib \<Rightarrow> stream \<Rightarrow> digest \<Rightarrow> error + digestingReader" where
  "newDigestingReader D src expected =
     (if Validate D expected \<noteq> None then
        Inl (Errorf (''Invalid digest specification '' @ expected))
      else let digestAlgorithm = Algorithm expected in
        if \<not> Available D digestAlgorithm then
          Inl (Errorf (''Invalid digest specification '' @ expected
                 @ '': unsupported digest algorithm '' @ digestAlgorithm))
        else
          Inr \<lparr>source = src,
               digester = \<lparr>algorithm = digestAlgorithm, written = []\<rparr>,
               expectedDigest = expected,
               validationFailed = False\<rparr>)"

text \<open>
  \<open>Read(p)\<close> with \<open>len(p) = n\<close>. The result is the reported prefix \<open>p[:n]\<close> and the
  error; a result with no bytes is \<open>return 0, err\<close>.
\<close>

definition digestingReader_Read ::
  "digestlib \<Rightarrow> digestingReader \<Rightarrow> nat \<Rightarrow> (bytes \<times> error option) \<times> digestingReader" where
  "digestingReader_Read D d n =
     (case stream_Read (source d) n of ((p, err), src') \<Rightarrow>
        let d1 = d\<lparr>source := src'\<rparr> in
        case (if length p > 0 then Hash_Write (digester d1) p
              else ((length p, None), digester d1)) of
          ((n2, werr), h') \<Rightarrow>
            let d2 = d1\<lparr>digester := h'\<rparr> in
            if length p > 0 \<and> (n2 \<noteq> length p \<or> werr \<noteq> None) then
              (([], errors_Wrap werr (''Error updating digest during verification: ''
                     @ showNat n2 @ '' vs. '' @ showNat (length p))), d2)
            else if err = Some EOF then
              (let actualDigest = Digester_Digest D (digester d2) in
               if actualDigest \<noteq> expectedDigest d2 then
                 (([], Some (Errorf (''Digest did not match, expected '' @ expectedDigest d2
                          @ '', got '' @ actualDigest))),
                  d2\<lparr>validationFailed := True\<rparr>)
               else ((p, err), d2))
            else ((p, err), d2))"

section \<open>Consumers of a stream\<close>

text \<open>
  A backend or library routine that is handed a reader (\<open>PutBlob\<close>, the compression
  probe) is given by the reads it makes: it either returns, or asks for one \<open>Read\<close>
  with a buffer of \<open>n\<close> bytes and goes on according to what that read delivered.
  Such a routine returns after finitely many reads.
\<close>

datatype 'a consumer = Done 'a | Rd nat "bytes \<times> error option \<Rightarrow> 'a consumer"

primrec consume ::
  "('p \<Rightarrow> nat \<Rightarrow> (bytes \<times> error option) \<times> 'p) \<Rightarrow> 'a consumer \<Rightarrow> 'p \<Rightarrow> 'a \<times> 'p" where
  "consume rd (Done a) = (\<lambda>p. (a, p))"
| "consume rd (Rd n k) = (\<lambda>p. case rd p n of (r, p') \<Rightarrow> consume rd (k r) p')"

section \<open>The reader chain of the blob pipeline\<close>

text \<open>
  The chain that \<open>copyBlobFromStream\<close> builds, up to the optional compressor: the
  digesting reader, the stream that compression detection returns (the bytes it peeked,
  then the rest of the digesting reader, joined as \<open>io.MultiReader\<close> joins them), and
  the optional \<open>io.TeeReader\<close> whose writer feeds the DiffID computation. The two
  progress reporters pass every read through unchanged and are left out.

  \<open>tee\<close> is \<open>None\<close> without a tee, and otherwise holds the bytes written to the tee's
  writer so far. The reading end of that pipe takes every byte it is offered, so a
  write to it does not fail.
\<close>

record pipeline =
  dr :: digestingReader
  peeked :: bytes
  restDone :: bool
  tee :: "bytes option"

definition multi_Read ::
  "digestlib \<Rightarrow> pipeline \<Rightarrow> nat \<Rightarrow> (bytes \<times> error option) \<times> pipeline" where
  "multi_Read D pl n =
     (if peeked pl \<noteq> [] then ((take n (peeked pl), None), pl\<lparr>peeked := drop n (peeked pl)\<rparr>)
      else if restDone pl then (([], Some EOF), pl)
      else case digestingReader_Read D (dr pl) n of
             ((p, err), d') \<Rightarrow> ((p, err), pl\<lparr>dr := d', restDone := (err = Some EOF)\<rparr>))"

definition destStream_Read ::
  "digestlib \<Rightarrow> pipeline \<Rightarrow> nat \<Rightarrow> (bytes \<times> error option) \<times> pipeline" where
  "destStream_Read D pl n =
     (case multi_Read D pl n of
        ((p, err), pl') \<Rightarrow>
          (case tee pl' of
             None \<Rightarrow> ((p, err), pl')
           | Some w \<Rightarrow> ((p, err), if length p > 0 then pl'\<lparr>tee := Some (w @ p)\<rparr> else pl')))"

text \<open>
  What is left to read bounds the number of reads that return without an error; it is
  the measure of the copy loop below.
\<close>

definition stream_size :: "stream \<Rightarrow> nat" where
  "stream_size s = sum_list (map (\<lambda>(d, e). Suc (length d)) s)"

definition pipeline_size :: "pipeline \<Rightarrow> nat" where
  "pipeline_size pl = length (peeked pl) + stream_size (source (dr pl))"

lemma stream_Read_size:
  "stream_Read s n = ((p, None), s') \<Longrightarrow> 0 < n \<Longrightarrow> stream_size s' < stream_size s"
  by (cases s) (auto simp: stream_size_def split: if_splits)

lemma digestingReader_Read_size:
  "digestingReader_Read D d n = ((p, None), d') \<Longrightarrow> 0 < n \<Longrightarrow>
   stream_size (source d') < stream_size (source d)"
  by (auto simp: digestingReader_Read_def Hash_Write_def Let_def errors_Wrap_def
           split: prod.splits if_splits dest: stream_Read_size)

lemma multi_Read_size:
  "multi_Read D pl n = ((p, None), pl') \<Longrightarrow> 0 < n \<Longrightarrow> pipeline_size pl' < pipeline_size pl"
  by (auto simp: multi_Read_def pipeline_size_def
           split: prod.splits if_splits dest: digestingReader_Read_size)

lemma destStream_Read_size:
  "destStream_Read D pl n = ((p, None), pl') \<Longrightarrow> 0 < n \<Longrightarrow> pipeline_size pl' < pipeline_size pl"
  by (auto simp: destStream_Read_def pipeline_size_def
           split: prod.splits option.splits if_splits dest!: multi_Read_size)

text \<open>
  \<open>io.Copy\<close> from the chain, with a buffer of \<open>Suc k\<close> bytes: read until a read reports
  an error; \<open>io.EOF\<close> ends the copy without an error. The result holds the bytes copied.
\<close>

function io_Copy ::
  "digestlib \<Rightarrow> nat \<Rightarrow> pipeline \<Rightarrow> bytes \<Rightarrow> (bytes \<times> error option) \<times> pipeline" where
  "io_Copy D k pl acc =
     (case destStream_Read D pl (Suc k) of
        ((p, er), pl') \<Rightarrow>
          (case er of
             None \<Rightarrow> io_Copy D k pl' (acc @ p)
           | Some e \<Rightarrow> ((acc @ p, if e = EOF then None else Some e), pl')))"
  by pat_completeness auto
termination
  by (relation "measure (\<lambda>(D, k, pl, acc). pipeline_size pl)")
     (auto dest: destStream_Read_size [OF sym])

declare io_Copy.simps [simp del]

section \<open>Manifests, images and backends\<close>

text \<open>
  \<open>types.ManifestUpdateOptions\<close>. The \<open>Destination\<close> field of its \<open>InformationOnly\<close>
  part always holds the copier's own destination and is left out.
\<close>

record ManifestUpdateInformation =
  info_LayerInfos :: "BlobInfo slice"
  LayerDiffIDs :: "digest slice"

record ManifestUpdateOptions =
  upd_LayerInfos :: "BlobInfo slice"
  EmbeddedDockerReference :: "string option"
  ManifestMIMEType :: string
  InformationOnly :: ManifestUpdateInformation

text \<open>
  A parsed image (\<open>types.Image\<close>) is given by what its methods return. A Docker
  reference is its text; \<open>OCIConfig\<close> is the \<open>OS\<close> field of the parsed configuration,
  the only one \<open>copy.go\<close> reads.
\<close>

datatype Image = ParsedImage
  (Manifest: "error + bytes \<times> string")
  (ConfigInfo: BlobInfo)
  (ConfigBlob: "error + bytes")
  (OCIConfig: "error + string")
  (LayerInfos: "BlobInfo slice")
  (LayerInfosForCopy: "BlobInfo slice")
  (EmbeddedDockerReferenceConflicts: "string \<Rightarrow> bool")
  (UpdatedImageNeedsLayerDiffIDs: "ManifestUpdateOptions \<Rightarrow> bool")
  (UpdatedImage: "ManifestUpdateOptions \<Rightarrow> error + Image")
  (Signatures: "error + bytes list")

record ListUpdate =
  lu_Digest :: digest
  lu_Size :: int
  lu_MediaType :: string

record ManifestList =
  MIMEType :: string
  Instances :: "ListUpdate list"

record SystemContext =
  OSChoice :: string
  ArchitectureChoice :: string

text \<open>
  The calls that reach a backend are recorded, oldest first. \<open>EvPutBlob\<close> holds the
  \<open>BlobInfo\<close> handed to \<open>PutBlob\<close>, whether the stream handed over is the output of
  the compressor, and what \<open>PutBlob\<close> returned.
\<close>

datatype event =
    EvHasBlob BlobInfo
  | EvReapplyBlob BlobInfo
  | EvGetBlob BlobInfo
  | EvPutBlob BlobInfo bool "error + BlobInfo"
  | EvPutManifest bytes "digest option"
  | EvPutSignatures "bytes list" "digest option"
  | EvCommit
  | EvCloseDest
  | EvCloseSource

text \<open>
  A destination (\<open>types.ImageDestination\<close>) and a source (\<open>types.ImageSource\<close>) over a
  backend state \<open>'s\<close>. What a destination advertises does not change during a copy.
  \<open>DockerReference\<close> is \<open>Reference().DockerReference()\<close>; \<open>DestImageName\<close> and
  \<open>SourceImageName\<close> are \<open>transports.ImageName\<close> of the two references. \<open>UnparsedManifest\<close> is
  \<open>Manifest()\<close> of the unparsed instance (\<open>None\<close> is the top level).
\<close>

record 's ImageDestination =
  DestImageName :: string
  SupportedManifestMIMETypes :: "string list"
  SupportsSignatures :: "error option"
  ShouldCompressLayers :: bool
  AcceptsForeignLayerURLs :: bool
  MustMatchRuntimeOS :: bool
  DockerReference :: "string option"
  PutBlob :: "BlobInfo \<Rightarrow> 's \<Rightarrow> ((error + BlobInfo) \<times> 's) consumer"
  HasBlob :: "BlobInfo \<Rightarrow> 's \<Rightarrow> (error + bool \<times> int) \<times> 's"
  ReapplyBlob :: "BlobInfo \<Rightarrow> 's \<Rightarrow> (error + BlobInfo) \<times> 's"
  PutManifest :: "bytes \<Rightarrow> digest option \<Rightarrow> 's \<Rightarrow> error option \<times> 's"
  PutSignatures :: "bytes list \<Rightarrow> digest option \<Rightarrow> 's \<Rightarrow> error option \<times> 's"
  Commit :: "'s \<Rightarrow> error option \<times> 's"
  CloseDest :: "'s \<Rightarrow> error option \<times> 's"

record 's ImageSource =
  SourceImageName :: string
  UnparsedManifest :: "digest option \<Rightarrow> error + bytes \<times> string"
  GetSignatures :: "digest option \<Rightarrow> error + bytes list"
  GetBlob :: "BlobInfo \<Rightarrow> 's \<Rightarrow> (error + stream \<times> int) \<times> 's"
  CloseSource :: "'s \<Rightarrow> error option \<times> 's"

text \<open>
  What \<open>copy.go\<close> calls outside itself and the two backends: the digest library, the
  manifest and manifest-list parsers, the image parser, the signer, gzip and the runtime.

  Modelled from the spec: \<open>DetectCompression\<close> (package \<open>pkg/compression\<close>) peeks the
  stream to identify a known compression framing and yields an optional decompressor
  (here its name) plus the re-prefixed stream, without throwing bytes away: it is a
  consumer of the stream, and the bytes it read are put back in front of the rest.
  Modelled from the spec: \<open>createSignature\<close> is the signer backend,
  \<open>sign(manifest_bytes, key_id)\<close>.
\<close>

record lib =
  digests :: digestlib
  manifest_Digest :: "bytes \<Rightarrow> error + digest"
  DetectCompression :: "(error + string option) consumer"
  decompress :: "string \<Rightarrow> bytes \<Rightarrow> error + bytes"
  gzip :: "bytes \<Rightarrow> bytes"
  createSignature :: "bytes \<Rightarrow> string \<Rightarrow> error + bytes"
  GOOS :: string
  FromUnparsedImage :: "SystemContext option \<Rightarrow> digest option \<Rightarrow> error + Image"
  ListFromBlob :: "bytes \<Rightarrow> string \<Rightarrow> error + ManifestList"
  ChooseInstance :: "ManifestList \<Rightarrow> SystemContext option \<Rightarrow> error + digest"
  UpdateInstances :: "ManifestList \<Rightarrow> ListUpdate list \<Rightarrow> error + ManifestList"
  ToSchema2List :: "ManifestList \<Rightarrow> error + ManifestList"
  ToOCI1Index :: "ManifestList \<Rightarrow> error + ManifestList"
  Serialize :: "ManifestList \<Rightarrow> error + bytes"

definition Canonical :: string where
  \<comment> \<open>\<open>digest.Canonical\<close>\<close>
  "Canonical = ''sha256''"

section \<open>The copier\<close>

text \<open>
  The \<open>copier\<close> struct, with the state of the backends behind \<open>dest\<close> and \<open>rawSource\<close>
  and the record of calls. A Go map yields the zero value for a missing key. The report
  writer and the progress channel carry no data of the copy and are left out.
\<close>

record 's copier =
  copiedBlobs :: "digest \<rightharpoonup> digest"
  cachedDiffIDs :: "digest \<rightharpoonup> digest"
  dest :: "'s ImageDestination"
  rawSource :: "'s ImageSource"
  store :: 's
  trace :: "event list"

definition lookupDigest :: "(digest \<rightharpoonup> digest) \<Rightarrow> digest \<Rightarrow> digest" where
  "lookupDigest m k = (case m k of None \<Rightarrow> [] | Some v \<Rightarrow> v)"

definition dest_HasBlob :: "BlobInfo \<Rightarrow> 's copier \<Rightarrow> (error + bool \<times> int) \<times> 's copier" where
  "dest_HasBlob info c =
     (case HasBlob (dest c) info (store c) of
        (r, s') \<Rightarrow> (r, c\<lparr>store := s', trace := trace c @ [EvHasBlob info]\<rparr>))"

definition dest_ReapplyBlob :: "BlobInfo \<Rightarrow> 's copier \<Rightarrow> (error + BlobInfo) \<times> 's copier" where
  "dest_ReapplyBlob info c =
     (case ReapplyBlob (dest c) info (store c) of
        (r, s') \<Rightarrow> (r, c\<lparr>store := s', trace := trace c @ [EvReapplyBlob info]\<rparr>))"

definition rawSource_GetBlob :: "BlobInfo \<Rightarrow> 's copier \<Rightarrow> (error + stream \<times> int) \<times> 's copier" where
  "rawSource_GetBlob info c =
     (case GetBlob (rawSource c) info (store c) of
        (r, s') \<Rightarrow> (r, c\<lparr>store := s', trace := trace c @ [EvGetBlob info]\<rparr>))"

definition dest_PutManifest :: "bytes \<Rightarrow> digest option \<Rightarrow> 's copier \<Rightarrow> error option \<times> 's copier" where
  "dest_PutManifest m inst c =
     (case PutManifest (dest c) m inst (store c) of
        (r, s') \<Rightarrow> (r, c\<lparr>store := s', trace := trace c @ [EvPutManifest m inst]\<rparr>))"

definition dest_PutSignatures ::
  "bytes list \<Rightarrow> digest option \<Rightarrow> 's copier \<Rightarrow> error option \<times> 's copier" where
  "dest_PutSignatures sigs inst c =
     (case PutSignatures (dest c) sigs inst (store c) of
        (r, s') \<Rightarrow> (r, c\<lparr>store := s', trace := trace c @ [EvPutSignatures sigs inst]\<rparr>))"

definition dest_Commit :: "'s copier \<Rightarrow> error option \<times> 's copier" where
  "dest_Commit c =
     (case Commit (dest c) (store c) of
        (r, s') \<Rightarrow> (r, c\<lparr>store := s', trace := trace c @ [EvCommit]\<rparr>))"

text \<open>
  \<open>PutBlob\<close> reading from the reader chain, and \<open>PutBlob\<close> reading from the pipe that
  the compressor writes to.
\<close>

definition dest_PutBlob ::
  "digestlib \<Rightarrow> pipeline \<Rightarrow> BlobInfo \<Rightarrow> 's copier \<Rightarrow> (error + BlobInfo) \<times> pipeline \<times> 's copier" where
  "dest_PutBlob D pl inputInfo c =
     (case consume (destStream_Read D) (PutBlob (dest c) inputInfo (store c)) pl of
        ((r, s'), pl') \<Rightarrow>
          (r, pl', c\<lparr>store := s', trace := trace c @ [EvPutBlob inputInfo False r]\<rparr>))"

definition dest_PutBlob_compressed ::
  "stream \<Rightarrow> BlobInfo \<Rightarrow> 's copier \<Rightarrow> (error + BlobInfo) \<times> 's copier" where
  "dest_PutBlob_compressed cs inputInfo c =
     (case consume stream_Read (PutBlob (dest c) inputInfo (store c)) cs of
        ((r, s'), cs') \<Rightarrow>
          (r, c\<lparr>store := s', trace := trace c @ [EvPutBlob inputInfo True r]\<rparr>))"

section \<open>The blob pipeline\<close>

definition peek_Read ::
  "digestlib \<Rightarrow> digestingReader \<times> bytes \<Rightarrow> nat \<Rightarrow> (bytes \<times> error option) \<times> digestingReader \<times> bytes" where
  \<comment> \<open>a read of compression detection: what it reads is kept, to be put back in front\<close>
  "peek_Read D db n =
     (case db of (d, buf) \<Rightarrow>
        (case digestingReader_Read D d n of ((p, err), d') \<Rightarrow> ((p, err), (d', buf @ p))))"

text \<open>
  \<open>compressGoroutine\<close> copies the chain into a gzip writer on a pipe and closes the
  pipe with the error of the copy. The side task is taken at its input/output relation:
  the destination reads the compressed form of all the chain delivers, then the error of
  the copy or end-of-input.
\<close>

definition compressGoroutine :: "lib \<Rightarrow> pipeline \<Rightarrow> stream \<times> pipeline" where
  "compressGoroutine L pl =
     (case io_Copy (digests L) 32767 pl [] of
        ((data, err), pl') \<Rightarrow>
          ((gzip L data, None) # (case err of None \<Rightarrow> [] | Some e \<Rightarrow> [([], Some e)]), pl'))"

text \<open>
  \<open>copyBlobFromStream\<close>. \<open>wantCopy\<close> is \<open>getOriginalLayerCopyWriter != nil\<close>. The result
  holds, next to the \<open>BlobInfo\<close> of the stored blob, the decompressor that
  \<open>getOriginalLayerCopyWriter\<close> was called with and the bytes written to its writer.
\<close>

definition copyBlobFromStream ::
  "lib \<Rightarrow> stream \<Rightarrow> BlobInfo \<Rightarrow> bool \<Rightarrow> bool \<Rightarrow> 's copier \<Rightarrow>
   (error + BlobInfo \<times> string option \<times> bytes) \<times> 's copier" where
  "copyBlobFromStream L srcStream srcInfo wantCopy canCompress c =
     (case newDigestingReader (digests L) srcStream (Digest srcInfo) of
        Inl err \<Rightarrow> (Inl (Wrap err (''Error preparing to verify blob '' @ Digest srcInfo)), c)
      | Inr digestingReader \<Rightarrow>
          (case consume (peek_Read (digests L)) (DetectCompression L) (digestingReader, []) of
             (Inl err, db) \<Rightarrow> (Inl (Wrap err (''Error reading blob '' @ Digest srcInfo)), c)
           | (Inr decompressor, (d', prefix)) \<Rightarrow>
               let isCompressed = (decompressor \<noteq> None);
                   destStream = \<lparr>dr = d', peeked = prefix, restDone = False,
                                 tee = (if wantCopy then Some [] else None)\<rparr>
               in
               (case (if \<not> canCompress \<or> isCompressed \<or> \<not> ShouldCompressLayers (dest c) then
                        (case dest_PutBlob (digests L) destStream srcInfo c of
                           (r, pl, c') \<Rightarrow> (srcInfo, r, pl, c'))
                      else
                        (case compressGoroutine L destStream of
                           (cs, pl) \<Rightarrow>
                             (case dest_PutBlob_compressed cs (BlobInfo0\<lparr>Digest := [], Size := - 1\<rparr>) c of
                                (r, c') \<Rightarrow> (BlobInfo0\<lparr>Digest := [], Size := - 1\<rparr>, r, pl, c')))) of
                  (inputInfo, r, pl, c') \<Rightarrow>
                    (case r of
                       Inl err \<Rightarrow> (Inl (Wrap err ''Error writing blob''), c')
                     | Inr uploadedInfo \<Rightarrow>
                         (case (if wantCopy then io_Copy (digests L) 8191 pl [] else (([], None), pl)) of
                            ((discarded, cerr), pl') \<Rightarrow>
                              (case cerr of
                                 Some err \<Rightarrow>
                                   (Inl (Wrap err (''Error reading input blob '' @ Digest srcInfo)), c')
                               | None \<Rightarrow>
                                   if validationFailed (dr pl') then
                                     (Inl (Errorf (''Internal error writing blob '' @ Digest srcInfo
                                             @ '', digest verification failed but was ignored'')), c')
                                   else if Digest inputInfo \<noteq> [] \<and> Digest uploadedInfo \<noteq> Digest inputInfo then
                                     (Inl (Errorf (''Internal error writing blob '' @ Digest srcInfo
                                             @ '', blob with digest '' @ Digest inputInfo
                                             @ '' saved with digest '' @ Digest uploadedInfo)), c')
                                   else
                                     (Inr (uploadedInfo, decompressor,
                                           (case tee pl' of None \<Rightarrow> [] | Some w \<Rightarrow> w)), c')))))))"

definition copyConfig :: "lib \<Rightarrow> Image \<Rightarrow> 's copier \<Rightarrow> error option \<times> 's copier" where
  "copyConfig L src c =
     (let srcInfo = ConfigInfo src in
      if Digest srcInfo \<noteq> [] then
        (case ConfigBlob src of
           Inl err \<Rightarrow> (Some (Wrap err (''Error reading config blob '' @ Digest srcInfo)), c)
         | Inr configBlob \<Rightarrow>
             (case copyBlobFromStream L (bytes_NewReader configBlob) srcInfo False False c of
                (Inl err, c') \<Rightarrow> (Some err, c')
              | (Inr (destInfo, z, w), c') \<Rightarrow>
                  if Digest destInfo \<noteq> Digest srcInfo then
                    (Some (Errorf (''Internal error: copying uncompressed config blob ''
                             @ Digest srcInfo @ '' changed digest to '' @ Digest destInfo)), c')
                  else (None, c')))
      else (None, c))"

section \<open>Copying one layer\<close>

text \<open>
  \<open>computeDiffID\<close> on the bytes its stream delivers. The DiffID side task
  (\<open>diffIDComputationGoroutine\<close>) reads all that is written to the tee's writer and sends
  the result of \<open>computeDiffID\<close>.
\<close>

definition computeDiffID :: "lib \<Rightarrow> bytes \<Rightarrow> string option \<Rightarrow> error + digest" where
  "computeDiffID L stream decompressor =
     (case decompressor of
        Some z \<Rightarrow>
          (case decompress L z stream of
             Inl err \<Rightarrow> Inl err
           | Inr s \<Rightarrow> Inr (FromBytes (digests L) Canonical s))
      | None \<Rightarrow> Inr (FromBytes (digests L) Canonical stream))"

record imageCopier =
  manifestUpdates :: ManifestUpdateOptions
  src :: Image
  diffIDsAreNeeded :: bool
  canModifyManifest :: bool

text \<open>
  \<open>copyLayerFromStream\<close>. The second component of the result is what \<open>diffIDChan\<close>
  delivers; without \<open>diffIDIsNeeded\<close> there is no channel and the caller does not read it.
\<close>

definition copyLayerFromStream ::
  "lib \<Rightarrow> imageCopier \<Rightarrow> stream \<Rightarrow> BlobInfo \<Rightarrow> bool \<Rightarrow> 's copier \<Rightarrow>
   (error + BlobInfo \<times> (error + digest)) \<times> 's copier" where
  "copyLayerFromStream L ic srcStream srcInfo diffIDIsNeeded c =
     (case copyBlobFromStream L srcStream srcInfo diffIDIsNeeded (canModifyManifest ic) c of
        (Inl err, c') \<Rightarrow> (Inl err, c')
      | (Inr (blobInfo, decompressor, w), c') \<Rightarrow>
          (Inr (blobInfo, computeDiffID L w decompressor), c'))"

definition copyLayer ::
  "lib \<Rightarrow> imageCopier \<Rightarrow> BlobInfo \<Rightarrow> 's copier \<Rightarrow> (error + BlobInfo \<times> digest) \<times> 's copier" where
  "copyLayer L ic srcInfo c =
     (case dest_HasBlob srcInfo c of
        (Inl err, c1) \<Rightarrow>
          (Inl (Wrap err (''Error checking for blob '' @ Digest srcInfo @ '' at destination'')), c1)
      | (Inr (haveBlob, extantBlobSize), c1) \<Rightarrow>
          let diffIDIsNeeded =
                (diffIDsAreNeeded ic \<and> lookupDigest (cachedDiffIDs c1) (Digest srcInfo) = [])
          in
          if haveBlob \<and> \<not> diffIDIsNeeded then
            (if Size srcInfo \<noteq> - 1 \<and> Size srcInfo \<noteq> extantBlobSize then
               (Inl (Errorf (''Error: blob '' @ Digest srcInfo @ '' is already present, but with size ''
                       @ showInt extantBlobSize @ '' instead of '' @ showInt (Size srcInfo))), c1)
             else
               (case dest_ReapplyBlob (srcInfo\<lparr>Size := extantBlobSize\<rparr>) c1 of
                  (Inl err, c2) \<Rightarrow>
                    (Inl (Wrap err (''Error reapplying blob '' @ Digest srcInfo @ '' at destination'')), c2)
                | (Inr blobinfo, c2) \<Rightarrow>
                    (Inr (blobinfo, lookupDigest (cachedDiffIDs c2) (Digest srcInfo)), c2)))
          else
            (case rawSource_GetBlob srcInfo c1 of
               (Inl err, c2) \<Rightarrow> (Inl (Wrap err (''Error reading blob '' @ Digest srcInfo)), c2)
             | (Inr (srcStream, srcBlobSize), c2) \<Rightarrow>
                 (case copyLayerFromStream L ic srcStream
                         (BlobInfo0\<lparr>Digest := Digest srcInfo, Size := srcBlobSize\<rparr>) diffIDIsNeeded c2 of
                    (Inl err, c3) \<Rightarrow> (Inl err, c3)
                  | (Inr (blobInfo, diffIDResult), c3) \<Rightarrow>
                      if diffIDIsNeeded then
                        (case diffIDResult of
                           Inl err \<Rightarrow> (Inl (Wrap err ''Error computing layer DiffID''), c3)
                         | Inr dg \<Rightarrow>
                             (Inr (blobInfo, dg),
                              c3\<lparr>cachedDiffIDs := (cachedDiffIDs c3)(Digest srcInfo \<mapsto> dg)\<rparr>))
                      else (Inr (blobInfo, []), c3))))"

section \<open>Copying the layers of an image\<close>

definition layerDigestsDiffer :: "BlobInfo list \<Rightarrow> BlobInfo list \<Rightarrow> bool" where
  "layerDigestsDiffer a b =
     (if length a \<noteq> length b then True
      else list_ex (\<lambda>(x, y). Digest x \<noteq> Digest y) (zip a b))"

definition copyLayers_body ::
  "lib \<Rightarrow> imageCopier \<Rightarrow> BlobInfo \<Rightarrow> 's copier \<Rightarrow> (error + BlobInfo \<times> digest) \<times> 's copier" where
  \<comment> \<open>the body of the loop over \<open>srcInfos\<close>: the \<open>destInfo\<close> and \<open>diffID\<close> of one layer\<close>
  "copyLayers_body L ic srcLayer c =
     (if AcceptsForeignLayerURLs (dest c) \<and> length (elems (URLs srcLayer)) \<noteq> 0 then
        (if diffIDsAreNeeded ic then
           (Inl (Errorf ''getting DiffID for foreign layers is unimplemented''), c)
         else (Inr (srcLayer, []), c))
      else copyLayer L ic srcLayer c)"

fun copyLayers_loop ::
  "lib \<Rightarrow> imageCopier \<Rightarrow> BlobInfo list \<Rightarrow> BlobInfo list \<Rightarrow> digest list \<Rightarrow> 's copier \<Rightarrow>
   (error + BlobInfo list \<times> digest list) \<times> 's copier" where
  "copyLayers_loop L ic [] destInfos diffIDs c = (Inr (destInfos, diffIDs), c)"
| "copyLayers_loop L ic (srcLayer # rest) destInfos diffIDs c =
     (case copyLayers_body L ic srcLayer c of
        (Inl err, c') \<Rightarrow> (Inl err, c')
      | (Inr (destInfo, diffID), c') \<Rightarrow>
          copyLayers_loop L ic rest (destInfos @ [destInfo]) (diffIDs @ [diffID]) c')"

definition copyLayers ::
  "lib \<Rightarrow> imageCopier \<Rightarrow> 's copier \<Rightarrow> error option \<times> imageCopier \<times> 's copier" where
  "copyLayers L ic c =
     (let updatedSrcInfos = LayerInfosForCopy (src ic);
          srcInfosUpdated = (updatedSrcInfos \<noteq> None \<and> LayerInfos (src ic) \<noteq> updatedSrcInfos)
      in
      if srcInfosUpdated \<and> \<not> canModifyManifest ic then
        (Some (Errorf ''Internal error: copyLayers() needs to use an updated manifest but that was known to be forbidden''),
         ic, c)
      else
        let srcInfos = (if srcInfosUpdated then updatedSrcInfos else LayerInfos (src ic)) in
        (case copyLayers_loop L ic (elems srcInfos) [] [] c of
           (Inl err, c') \<Rightarrow> (Some err, ic, c')
         | (Inr (destInfos, diffIDs), c') \<Rightarrow>
             let mu = manifestUpdates ic;
                 mu1 = mu\<lparr>InformationOnly := (InformationOnly mu)\<lparr>info_LayerInfos := Some destInfos\<rparr>\<rparr>;
                 mu2 = (if diffIDsAreNeeded ic then
                          mu1\<lparr>InformationOnly := (InformationOnly mu1)\<lparr>LayerDiffIDs := Some diffIDs\<rparr>\<rparr>
                        else mu1);
                 mu3 = (if srcInfosUpdated \<or> layerDigestsDiffer (elems srcInfos) destInfos then
                          mu2\<lparr>upd_LayerInfos := Some destInfos\<rparr>
                        else mu2)
             in (None, ic\<lparr>manifestUpdates := mu3\<rparr>, c')))"

section \<open>Config and manifest\<close>

definition noUpdates :: "ManifestUpdateInformation \<Rightarrow> ManifestUpdateOptions" where
  \<comment> \<open>\<open>types.ManifestUpdateOptions{InformationOnly: info}\<close>\<close>
  "noUpdates info =
     \<lparr>upd_LayerInfos = None, EmbeddedDockerReference = None, ManifestMIMEType = [],
      InformationOnly = info\<rparr>"

definition copyUpdatedConfigAndManifest ::
  "lib \<Rightarrow> imageCopier \<Rightarrow> digest option \<Rightarrow> 's copier \<Rightarrow> (error + bytes) \<times> 's copier" where
  "copyUpdatedConfigAndManifest L ic instanceDigest c =
     (case (if manifestUpdates ic \<noteq> noUpdates (InformationOnly (manifestUpdates ic)) then
              (if \<not> canModifyManifest ic then
                 Inl (Errorf ''Internal error: copy needs an updated manifest but that was known to be forbidden'')
               else if \<not> diffIDsAreNeeded ic
                       \<and> UpdatedImageNeedsLayerDiffIDs (src ic) (manifestUpdates ic) then
                 Inl (Errorf (''Can not convert image to '' @ ManifestMIMEType (manifestUpdates ic)
                        @ '', preparing DiffIDs for this case is not supported''))
               else
                 (case UpdatedImage (src ic) (manifestUpdates ic) of
                    Inl err \<Rightarrow> Inl (Wrap err ''Error creating an updated image manifest'')
                  | Inr pi \<Rightarrow> Inr pi))
            else Inr (src ic)) of
        Inl err \<Rightarrow> (Inl err, c)
      | Inr pendingImage \<Rightarrow>
          (case Manifest pendingImage of
             Inl err \<Rightarrow> (Inl (Wrap err ''Error reading manifest''), c)
           | Inr (man, mt) \<Rightarrow>
               (case copyConfig L pendingImage c of
                  (Some err, c1) \<Rightarrow> (Inl err, c1)
                | (None, c1) \<Rightarrow>
                    (case (case instanceDigest of
                             None \<Rightarrow> Inr None
                           | Some d \<Rightarrow>
                               (case manifest_Digest L man of
                                  Inl err \<Rightarrow> Inl err
                                | Inr tmpDigest \<Rightarrow> Inr (Some tmpDigest))) of
                       Inl err \<Rightarrow> (Inl err, c1)
                     | Inr inst \<Rightarrow>
                         (case dest_PutManifest man inst c1 of
                            (Some err, c2) \<Rightarrow> (Inl (Wrap err ''Error writing manifest''), c2)
                          | (None, c2) \<Rightarrow> (Inr man, c2))))))"

section \<open>Copying a single image\<close>

definition CopyOnlyCurrentRuntimeImage :: int where
  "CopyOnlyCurrentRuntimeImage = 0"

definition CopyAllImages :: int where
  "CopyAllImages = 1"

record Options =
  RemoveSignatures :: bool
  SignBy :: string
  SourceCtx :: "SystemContext option"
  DestinationCtx :: "SystemContext option"
  ForceManifestMIMEType :: string
  MultipleImages :: int

definition Options0 :: Options where
  \<comment> \<open>the zero value \<open>&Options{}\<close>\<close>
  "Options0 = \<lparr>RemoveSignatures = False, SignBy = [], SourceCtx = None, DestinationCtx = None,
               ForceManifestMIMEType = [], MultipleImages = 0\<rparr>"

text \<open>
  The policy backend, \<open>policyContext.IsRunningImageAllowed\<close>, on an unparsed instance
  (named by its digest; \<open>None\<close> is the top level).
\<close>

type_synonym PolicyContext = "digest option \<Rightarrow> bool \<times> error option"

definition wantedOS :: "lib \<Rightarrow> SystemContext option \<Rightarrow> string" where
  \<comment> \<open>\<open>runtime.GOOS\<close>, unless the context chooses an operating system\<close>
  "wantedOS L ctx =
     (case ctx of
        None \<Rightarrow> GOOS L
      | Some x \<Rightarrow> if OSChoice x \<noteq> [] then OSChoice x else GOOS L)"

definition checkImageDestinationForCurrentRuntimeOS ::
  "lib \<Rightarrow> SystemContext option \<Rightarrow> Image \<Rightarrow> 's ImageDestination \<Rightarrow> error option" where
  "checkImageDestinationForCurrentRuntimeOS L ctx srcImage destination =
     (if MustMatchRuntimeOS destination then
        (case OCIConfig srcImage of
           Inl err \<Rightarrow> Some (Wrap err ''Error parsing image configuration'')
         | Inr os \<Rightarrow>
             (let osErr = Errorf (''image operating system '' @ quote os
                                   @ '' cannot be used on '' @ quote (wantedOS L ctx))
              in
              if wantedOS L ctx = ''windows'' \<and> os = ''linux'' then Some osErr
              else if wantedOS L ctx \<noteq> ''windows'' \<and> os = ''windows'' then Some osErr
              else None))
      else None)"

definition updateEmbeddedDockerReference ::
  "'s ImageDestination \<Rightarrow> imageCopier \<Rightarrow> error + imageCopier" where
  "updateEmbeddedDockerReference destination ic =
     (case DockerReference destination of
        None \<Rightarrow> Inr ic
      | Some destRef \<Rightarrow>
          if \<not> EmbeddedDockerReferenceConflicts (src ic) destRef then Inr ic
          else if \<not> canModifyManifest ic then
            Inl (Errorf (''Copying a schema1 image with an embedded Docker reference to ''
                   @ DestImageName destination @ '' (Docker reference '' @ destRef
                   @ '') would invalidate existing signatures. Explicitly enable signature removal to proceed anyway''))
          else
            Inr (ic\<lparr>manifestUpdates := (manifestUpdates ic)\<lparr>EmbeddedDockerReference := Some destRef\<rparr>\<rparr>))"

subsection \<open>Manifest type negotiation\<close>

text \<open>
  Modelled from the spec: the media types of package \<open>manifest\<close> and of the OCI image
  specification. The spec names the schema2 and the OCI image manifest types by their
  strings; the others are the registered strings of the formats it names.
\<close>

definition DockerV2Schema2MediaType :: string where
  "DockerV2Schema2MediaType = ''application/vnd.docker.distribution.manifest.v2+json''"

definition MediaTypeImageManifest :: string where
  "MediaTypeImageManifest = ''application/vnd.oci.image.manifest.v1+json''"

definition DockerV2Schema1SignedMediaType :: string where
  "DockerV2Schema1SignedMediaType = ''application/vnd.docker.distribution.manifest.v1+prettyjws''"

definition DockerV2Schema1MediaType :: string where
  "DockerV2Schema1MediaType = ''application/vnd.docker.distribution.manifest.v1+json''"

definition DockerV2ListMediaType :: string where
  "DockerV2ListMediaType = ''application/vnd.docker.distribution.manifest.list.v2+json''"

definition MediaTypeImageIndex :: string where
  "MediaTypeImageIndex = ''application/vnd.oci.image.index.v1+json''"

text \<open>
  Modelled from the spec: \<open>MIMETypeIsMultiImage\<close> and \<open>isMultiImage\<close> (not in
  \<open>copy.go\<close>) probe the MIME type of a manifest: the multi-image family is the schema2
  manifest list and the OCI image index.
\<close>

definition MIMETypeIsMultiImage :: "string \<Rightarrow> bool" where
  "MIMETypeIsMultiImage mt = (mt = DockerV2ListMediaType \<or> mt = MediaTypeImageIndex)"

definition isMultiImage :: "'s ImageSource \<Rightarrow> digest option \<Rightarrow> error + bool" where
  "isMultiImage rawSrc inst =
     (case UnparsedManifest rawSrc inst of
        Inl err \<Rightarrow> Inl err
      | Inr (m, mt) \<Rightarrow> Inr (MIMETypeIsMultiImage mt))"

text \<open>
  Modelled from the spec: the negotiation of section 4.5 step 8, which
  \<open>determineManifestConversion\<close> and \<open>determineListConversion\<close> (not in \<open>copy.go\<close>)
  implement. If a type is forced, it is the preferred one and no other candidate is
  tried. Else, if the source's type is in the destination's supported set (an empty set
  means any type), the preferred type is the source's. Else the preferred type is a
  supported type chosen by the ranked preference. The remaining supported types are the
  ordered fallbacks (scenario 3 of the spec has fallbacks next to a supported source
  type). A preferred type other than the source's is recorded in the updates.
\<close>

definition orderedCandidates :: "string list \<Rightarrow> string list \<Rightarrow> string list" where
  \<comment> \<open>the supported types by rank, then the others, each once\<close>
  "orderedCandidates ranking supported =
     rev (remdups (rev (filter (\<lambda>t. t \<in> set supported) ranking @ supported)))"

definition negotiate ::
  "string list \<Rightarrow> string \<Rightarrow> string list \<Rightarrow> string \<Rightarrow> error + string \<times> string list" where
  "negotiate ranking srcType supported force =
     (if force \<noteq> [] then Inr (force, [])
      else if supported = [] then Inr (srcType, [])
      else if srcType \<in> set supported then
        Inr (srcType, filter (\<lambda>t. t \<noteq> srcType) (orderedCandidates ranking supported))
      else
        (case orderedCandidates ranking supported of
           [] \<Rightarrow> Inl (Errorf ''Internal error: no candidate MIME types'')
         | t # ts \<Rightarrow> Inr (t, ts)))"

definition preferredManifestMIMETypes :: "string list" where
  "preferredManifestMIMETypes =
     [DockerV2Schema2MediaType, MediaTypeImageManifest,
      DockerV2Schema1SignedMediaType, DockerV2Schema1MediaType]"

definition determineManifestConversion ::
  "imageCopier \<Rightarrow> string list \<Rightarrow> string \<Rightarrow> error + string \<times> string list \<times> imageCopier" where
  "determineManifestConversion ic destSupportedManifestMIMETypes forceManifestMIMEType =
     (case Manifest (src ic) of
        Inl err \<Rightarrow> Inl (Wrap err ''Error reading manifest'')
      | Inr (m, srcType) \<Rightarrow>
          (case negotiate preferredManifestMIMETypes srcType
                  destSupportedManifestMIMETypes forceManifestMIMEType of
             Inl err \<Rightarrow> Inl err
           | Inr (preferredType, others) \<Rightarrow>
               Inr (preferredType, others,
                    if preferredType \<noteq> srcType then
                      ic\<lparr>manifestUpdates := (manifestUpdates ic)\<lparr>ManifestMIMEType := preferredType\<rparr>\<rparr>
                    else ic)))"

definition determineListConversion ::
  "string \<Rightarrow> string list \<Rightarrow> string \<Rightarrow> error + string \<times> string list" where
  "determineListConversion currentListMIMEType destSupportedMIMETypes forcedListMIMEType =
     negotiate [DockerV2ListMediaType, MediaTypeImageIndex] currentListMIMEType
       destSupportedMIMETypes forcedListMIMEType"

subsection \<open>The three parts of copyOneImage\<close>

text \<open>
  \<open>copyOneImage\<close> up to \<open>ic.copyLayers()\<close>: the checks, the signatures and the
  \<open>imageCopier\<close>. Nothing here calls a method of the backends that changes them. The
  result is either what \<open>copyOneImage\<close> returns at once, or the \<open>imageCopier\<close>, the
  signatures, the preferred manifest type and the other candidates. A rejection by the
  policy without an error returns \<open>errors.Wrap(nil, ...)\<close>, which is nil, with no manifest.
  The parameter \<open>sourceInstance\<close> of the source is not used by it and is left out.
\<close>

definition copyOneImage_setup ::
  "lib \<Rightarrow> PolicyContext \<Rightarrow> Options \<Rightarrow> digest option \<Rightarrow> 's ImageDestination \<Rightarrow> 's ImageSource \<Rightarrow>
   (error + bytes \<times> string) + (imageCopier \<times> bytes list \<times> string \<times> string list)" where
  "copyOneImage_setup L policyContext options unparsedImage destination rawSrc =
     (case isMultiImage rawSrc unparsedImage of
        Inl err \<Rightarrow>
          Inl (Inl (Wrap err (''Error determining manifest MIME type for '' @ SourceImageName rawSrc)))
      | Inr multiImage \<Rightarrow>
          if multiImage then
            Inl (Inl (Errorf ''Unexpectedly received a manifest list instead of a manifest for a single image''))
          else
            (case policyContext unparsedImage of
               (allowed, perr) \<Rightarrow>
                 if \<not> allowed \<or> perr \<noteq> None then
                   (case errors_Wrap perr ''Source image rejected'' of
                      Some e \<Rightarrow> Inl (Inl e)
                    | None \<Rightarrow> Inl (Inr ([], [])))
                 else
                   (case FromUnparsedImage L (SourceCtx options) unparsedImage of
                      Inl err \<Rightarrow>
                        Inl (Inl (Wrap err (''Error initializing image from source ''
                                    @ SourceImageName rawSrc)))
                    | Inr srcImage \<Rightarrow>
                        (case checkImageDestinationForCurrentRuntimeOS L (DestinationCtx options)
                                srcImage destination of
                           Some err \<Rightarrow> Inl (Inl err)
                         | None \<Rightarrow>
                             (case (if RemoveSignatures options then Inr []
                                    else (case Signatures srcImage of
                                            Inl err \<Rightarrow> Inl (Wrap err ''Error reading signatures'')
                                          | Inr sg \<Rightarrow> Inr sg)) of
                                Inl err \<Rightarrow> Inl (Inl err)
                              | Inr sigs \<Rightarrow>
                                  (case (if length sigs \<noteq> 0 then SupportsSignatures destination
                                         else None) of
                                     Some err \<Rightarrow> Inl (Inl (Wrap err ''Can not copy signatures''))
                                   | None \<Rightarrow>
                                       (case updateEmbeddedDockerReference destination
                                               \<lparr>manifestUpdates =
                                                  noUpdates \<lparr>info_LayerInfos = None, LayerDiffIDs = None\<rparr>,
                                                src = srcImage,
                                                diffIDsAreNeeded = False,
                                                canModifyManifest = (length sigs = 0)\<rparr> of
                                          Inl err \<Rightarrow> Inl (Inl err)
                                        | Inr ic1 \<Rightarrow>
                                            (case determineManifestConversion ic1
                                                    (SupportedManifestMIMETypes destination)
                                                    (ForceManifestMIMEType options) of
                                               Inl err \<Rightarrow> Inl (Inl err)
                                             | Inr (preferredManifestMIMEType, others, ic2) \<Rightarrow>
                                                 Inr (ic2\<lparr>diffIDsAreNeeded :=
                                                            UpdatedImageNeedsLayerDiffIDs srcImage
                                                              (manifestUpdates ic2)\<rparr>,
                                                      sigs, preferredManifestMIMEType, others)))))))))"

definition joinStrings :: "string list \<Rightarrow> string \<Rightarrow> string" where
  \<comment> \<open>\<open>strings.Join\<close>\<close>
  "joinStrings xs sep = (case xs of [] \<Rightarrow> [] | x # rest \<Rightarrow> x @ concat (map (\<lambda>y. sep @ y) rest))"

definition formatAttempt :: "string \<Rightarrow> error \<Rightarrow> string" where
  \<comment> \<open>\<open>fmt.Sprintf("%s(%v)", manifestMIMEType, err)\<close>\<close>
  "formatAttempt t err = t @ [CHR 0x28] @ Error err @ [CHR 0x29]"

text \<open>
  The loop over \<open>otherManifestMIMETypeCandidates\<close>; \<open>errs\<close> holds the failures so far.
\<close>

fun tryManifestMIMETypes ::
  "lib \<Rightarrow> imageCopier \<Rightarrow> digest option \<Rightarrow> string list \<Rightarrow> string list \<Rightarrow> 's copier \<Rightarrow>
   (error + bytes \<times> string) \<times> 's copier" where
  "tryManifestMIMETypes L ic targetInstance [] errs c =
     (Inl (Errorf (''Uploading manifest failed, attempted the following formats: ''
             @ joinStrings errs '', '')), c)"
| "tryManifestMIMETypes L ic targetInstance (manifestMIMEType # rest) errs c =
     (case copyUpdatedConfigAndManifest L
             (ic\<lparr>manifestUpdates := (manifestUpdates ic)\<lparr>ManifestMIMEType := manifestMIMEType\<rparr>\<rparr>)
             targetInstance c of
        (Inl err, c') \<Rightarrow>
          tryManifestMIMETypes L
            (ic\<lparr>manifestUpdates := (manifestUpdates ic)\<lparr>ManifestMIMEType := manifestMIMEType\<rparr>\<rparr>)
            targetInstance rest (errs @ [formatAttempt manifestMIMEType err]) c'
      | (Inr attemptedManifest, c') \<Rightarrow> (Inr (attemptedManifest, manifestMIMEType), c'))"

text \<open>
  \<open>copyOneImage\<close> from the first \<open>copyUpdatedConfigAndManifest\<close> to the end of the retry
  loop: the manifest stored and its type.
\<close>

definition copyOneImage_manifest ::
  "lib \<Rightarrow> imageCopier \<Rightarrow> digest option \<Rightarrow> string \<Rightarrow> string list \<Rightarrow> 's copier \<Rightarrow>
   (error + bytes \<times> string) \<times> 's copier" where
  "copyOneImage_manifest L ic targetInstance preferredManifestMIMEType otherManifestMIMETypeCandidates c =
     (case copyUpdatedConfigAndManifest L ic targetInstance c of
        (Inr man, c1) \<Rightarrow> (Inr (man, preferredManifestMIMEType), c1)
      | (Inl err, c1) \<Rightarrow>
          if \<not> isManifestRejected (Cause err) \<or> length otherManifestMIMETypeCandidates = 0 then
            (Inl err, c1)
          else if \<not> canModifyManifest ic then
            (Inl (Wrap err ''Writing manifest failed (and converting it is not possible)''), c1)
          else
            tryManifestMIMETypes L ic targetInstance otherManifestMIMETypeCandidates
              [formatAttempt preferredManifestMIMEType err] c1)"

definition copyOneImage ::
  "lib \<Rightarrow> PolicyContext \<Rightarrow> Options \<Rightarrow> digest option \<Rightarrow> digest option \<Rightarrow> 's copier \<Rightarrow>
   (error + bytes \<times> string) \<times> 's copier" where
  "copyOneImage L policyContext options unparsedImage targetInstance c =
     (case copyOneImage_setup L policyContext options unparsedImage (dest c) (rawSource c) of
        Inl r \<Rightarrow> (r, c)
      | Inr (ic, sigs, preferredManifestMIMEType, otherManifestMIMETypeCandidates) \<Rightarrow>
          (case copyLayers L ic c of
             (Some err, ic1, c1) \<Rightarrow> (Inl err, c1)
           | (None, ic1, c1) \<Rightarrow>
               (case copyOneImage_manifest L ic1 targetInstance preferredManifestMIMEType
                       otherManifestMIMETypeCandidates c1 of
                  (Inl err, c2) \<Rightarrow> (Inl err, c2)
                | (Inr (man, retManifestType), c2) \<Rightarrow>
                    (case (if SignBy options \<noteq> [] then
                             (case createSignature L man (SignBy options) of
                                Inl err \<Rightarrow> Inl err
                              | Inr newSig \<Rightarrow> Inr (sigs @ [newSig]))
                           else Inr sigs) of
                       Inl err \<Rightarrow> (Inl err, c2)
                     | Inr sigs' \<Rightarrow>
                         (case dest_PutSignatures sigs' targetInstance c2 of
                            (Some err, c3) \<Rightarrow> (Inl (Wrap err ''Error writing signatures''), c3)
                          | (None, c3) \<Rightarrow> (Inr (man, retManifestType), c3))))))"

section \<open>Copying a manifest list\<close>

definition supportsMultipleImages :: "'s ImageDestination \<Rightarrow> bool" where
  "supportsMultipleImages destination =
     (let mtypes = SupportedManifestMIMETypes destination in
      if length mtypes = 0 then True else list_ex MIMETypeIsMultiImage mtypes)"

text \<open>
  The loop over the instances of the list: one \<open>ListUpdate\<close> per instance copied.
\<close>

fun copyInstances ::
  "lib \<Rightarrow> PolicyContext \<Rightarrow> Options \<Rightarrow> ListUpdate list \<Rightarrow> ListUpdate list \<Rightarrow> 's copier \<Rightarrow>
   (error + ListUpdate list) \<times> 's copier" where
  "copyInstances L policyContext options [] updates c = (Inr updates, c)"
| "copyInstances L policyContext options (instance # rest) updates c =
     (case copyOneImage L policyContext options (Some (lu_Digest instance))
             (Some (lu_Digest instance)) c of
        (Inl err, c') \<Rightarrow> (Inl err, c')
      | (Inr (updatedManifest, updatedManifestType), c') \<Rightarrow>
          (case manifest_Digest L updatedManifest of
             Inl err \<Rightarrow> (Inl err, c')
           | Inr md \<Rightarrow>
               copyInstances L policyContext options rest
                 (updates @ [\<lparr>lu_Digest = md, lu_Size = int (length updatedManifest),
                              lu_MediaType = updatedManifestType\<rparr>]) c'))"

text \<open>
  The conversion of the list to the selected type: the \<open>switch\<close> of \<open>copyMultipleImages\<close>.
\<close>

definition convertList :: "lib \<Rightarrow> ManifestList \<Rightarrow> string \<Rightarrow> error + ManifestList" where
  "convertList L lst selectedType =
     (if selectedType = DockerV2ListMediaType then
        (case ToSchema2List L lst of
           Inl err \<Rightarrow> Inl (Wrap err ''Error converting manifest list to a schema 2 list'')
         | Inr l \<Rightarrow> Inr l)
      else if selectedType = MediaTypeImageIndex then
        (case ToOCI1Index L lst of
           Inl err \<Rightarrow> Inl (Wrap err ''Error converting manifest list to an oci 1 index'')
         | Inr l \<Rightarrow> Inr l)
      else
        Inl (Errorf (''Error converting manifest list to unknown supported type '' @ quote selectedType)))"

text \<open>
  \<open>copyMultipleImages\<close> after the instances are copied: the list is updated, converted
  if its type is not the selected one, serialized again if it was modified, stored and
  signed. \<open>manifestList\<close> holds the original bytes of the list.
\<close>

definition storeList ::
  "lib \<Rightarrow> Options \<Rightarrow> bytes \<Rightarrow> string \<Rightarrow> ManifestList \<Rightarrow> bytes list \<Rightarrow> ListUpdate list \<Rightarrow> 's copier \<Rightarrow>
   error option \<times> 's copier" where
  "storeList L options manifestList manifestType lst sigs updates c =
     (case UpdateInstances L lst updates of
        Inl err \<Rightarrow> (Some (Wrap err ''Error updating manifest list''), c)
      | Inr list1 \<Rightarrow>
          (case determineListConversion manifestType (SupportedManifestMIMETypes (dest c)) [] of
             Inl err \<Rightarrow>
               (Some (Wrap err ''Error determining manifest list type to write to destination''), c)
           | Inr (selectedType, others) \<Rightarrow>
               (case (if selectedType \<noteq> MIMEType list1 then convertList L list1 selectedType
                      else Inr list1) of
                  Inl err \<Rightarrow> (Some err, c)
                | Inr list2 \<Rightarrow>
                    (let listIsModified =
                           (Instances list1 \<noteq> Instances lst \<or> selectedType \<noteq> MIMEType list1)
                     in
                     case (if listIsModified then
                             (if \<not> (length sigs = 0) then
                                Inl (Errorf ''Internal error: copyMultipleImages() needs to use an updated manifest but that was known to be forbidden'')
                              else
                                (case Serialize L list2 of
                                   Inl err \<Rightarrow>
                                     Inl (Wrap err (''Error encoding updated manifest list (''
                                            @ quote (MIMEType list2) @ '')''))
                                 | Inr b \<Rightarrow> Inr b))
                           else Inr manifestList) of
                       Inl err \<Rightarrow> (Some err, c)
                     | Inr manifestList' \<Rightarrow>
                         (case dest_PutManifest manifestList' None c of
                            (Some err, c1) \<Rightarrow>
                              (Some (Wrap err (''Error writing manifest list '' @ quote manifestList')), c1)
                          | (None, c1) \<Rightarrow>
                              (case (if SignBy options \<noteq> [] then
                                       (case createSignature L manifestList' (SignBy options) of
                                          Inl err \<Rightarrow> Inl err
                                        | Inr newSig \<Rightarrow> Inr (sigs @ [newSig]))
                                     else Inr sigs) of
                                 Inl err \<Rightarrow> (Some err, c1)
                               | Inr sigs' \<Rightarrow>
                                   (case dest_PutSignatures sigs' None c1 of
                                      (Some err, c2) \<Rightarrow> (Some (Wrap err ''Error writing signatures''), c2)
                                    | (None, c2) \<Rightarrow> (None, c2))))))))"

definition copyMultipleImages ::
  "lib \<Rightarrow> PolicyContext \<Rightarrow> Options \<Rightarrow> 's copier \<Rightarrow> error option \<times> 's copier" where
  "copyMultipleImages L policyContext options c =
     (case UnparsedManifest (rawSource c) None of
        Inl err \<Rightarrow> (Some (Wrap err ''Error reading manifest list''), c)
      | Inr (manifestList, manifestType) \<Rightarrow>
          (case ListFromBlob L manifestList manifestType of
             Inl err \<Rightarrow> (Some (Wrap err (''Error parsing manifest list '' @ quote manifestList)), c)
           | Inr lst \<Rightarrow>
               (case (if RemoveSignatures options then Inr []
                      else (case GetSignatures (rawSource c) None of
                              Inl err \<Rightarrow> Inl (Wrap err ''Error reading signatures'')
                            | Inr sg \<Rightarrow> Inr sg)) of
                  Inl err \<Rightarrow> (Some err, c)
                | Inr sigs \<Rightarrow>
                    (case (if length sigs \<noteq> 0 then SupportsSignatures (dest c) else None) of
                       Some err \<Rightarrow> (Some (Wrap err ''Can not copy signatures''), c)
                     | None \<Rightarrow>
                         (case copyInstances L policyContext options (Instances lst) [] c of
                            (Inl err, c1) \<Rightarrow> (Some err, c1)
                          | (Inr updates, c1) \<Rightarrow>
                              storeList L options manifestList manifestType lst sigs updates c1)))))"

section \<open>The entry point\<close>

text \<open>
  An image reference (\<open>types.ImageReference\<close>) opens a destination or a source.
\<close>

record 's ImageReference =
  ImageName :: string
  NewImageDestination :: "SystemContext option \<Rightarrow> error + 's ImageDestination"
  NewImageSource :: "SystemContext option \<Rightarrow> error + 's ImageSource"

text \<open>
  \<open>Image\<close> between the creation of the copier and its last \<open>return\<close>: the copy and
  the commit.
\<close>

definition Image_copy ::
  "lib \<Rightarrow> PolicyContext \<Rightarrow> Options \<Rightarrow> 's copier \<Rightarrow> error option \<times> 's copier" where
  "Image_copy L policyContext options c =
     (case UnparsedManifest (rawSource c) None of
        Inl err \<Rightarrow>
          (Some (Wrap err (''Error reading manifest for '' @ SourceImageName (rawSource c))), c)
      | Inr (mfest, manifestType) \<Rightarrow>
          (case isMultiImage (rawSource c) None of
             Inl err \<Rightarrow>
               (Some (Wrap err (''Error determining manifest MIME type for ''
                        @ SourceImageName (rawSource c))), c)
           | Inr multiImage \<Rightarrow>
               (case (if \<not> multiImage then
                        (case copyOneImage L policyContext options None None c of
                           (Inl err, c1) \<Rightarrow> (Some err, c1)
                         | (Inr r, c1) \<Rightarrow> (None, c1))
                      else if MultipleImages options = CopyOnlyCurrentRuntimeImage then
                        (case ListFromBlob L mfest manifestType of
                           Inl err \<Rightarrow>
                             (Some (Wrap err (''Error parsing primary manifest as list for ''
                                      @ SourceImageName (rawSource c))), c)
                         | Inr manifestList \<Rightarrow>
                             (case ChooseInstance L manifestList (SourceCtx options) of
                                Inl err \<Rightarrow>
                                  (Some (Wrap err (''Error choosing an image from manifest list ''
                                           @ SourceImageName (rawSource c))), c)
                              | Inr instanceDigest \<Rightarrow>
                                  (case copyOneImage L policyContext options (Some instanceDigest) None c of
                                     (Inl err, c1) \<Rightarrow> (Some err, c1)
                                   | (Inr r, c1) \<Rightarrow> (None, c1))))
                      else if \<not> supportsMultipleImages (dest c) then
                        (Some (Errorf (''Error copying multiple images: destination reference ''
                                 @ quote (DestImageName (dest c))
                                 @ '' does not support multiple images'')), c)
                      else copyMultipleImages L policyContext options c) of
                  (Some err, c1) \<Rightarrow> (Some err, c1)
                | (None, c1) \<Rightarrow>
                    (case dest_Commit c1 of
                       (Some err, c2) \<Rightarrow> (Some (Wrap err ''Error committing the finished image''), c2)
                     | (None, c2) \<Rightarrow> (None, c2)))))"

text \<open>
  \<open>Image\<close>. The two deferred functions run after the body, the one that closes the
  source first; each replaces \<open>retErr\<close> by \<open>errors.Wrapf(retErr, ...)\<close> when its
  \<open>Close\<close> fails. The result is \<open>retErr\<close>, the state of the backends and the calls made.
\<close>

definition Image_withDestination ::
  "lib \<Rightarrow> PolicyContext \<Rightarrow> 's ImageReference \<Rightarrow> Options \<Rightarrow> 's ImageDestination \<Rightarrow> 's \<Rightarrow>
   error option \<times> 's \<times> event list" where
  "Image_withDestination L policyContext srcRef options destination s =
     (case NewImageSource srcRef (SourceCtx options) of
        Inl err \<Rightarrow> (Some (Wrap err (''Error initializing source '' @ ImageName srcRef)), s, [])
      | Inr rawSrc \<Rightarrow>
          (case Image_copy L policyContext options
                  \<lparr>copiedBlobs = Map.empty, cachedDiffIDs = Map.empty, dest = destination,
                   rawSource = rawSrc, store = s, trace = []\<rparr> of
             (retErr, c1) \<Rightarrow>
               (case CloseSource rawSrc (store c1) of
                  (cerr, s2) \<Rightarrow>
                    ((case cerr of
                        Some err \<Rightarrow> errors_Wrap retErr ('' (src: '' @ Error err @ '')'')
                      | None \<Rightarrow> retErr),
                     s2, trace c1 @ [EvCloseSource]))))"

definition Image ::
  "lib \<Rightarrow> PolicyContext \<Rightarrow> 's ImageReference \<Rightarrow> 's ImageReference \<Rightarrow> Options option \<Rightarrow> 's \<Rightarrow>
   error option \<times> 's \<times> event list" where
  "Image L policyContext destRef srcRef opts s =
     (let options = (case opts of None \<Rightarrow> Options0 | Some v \<Rightarrow> v) in
      if MultipleImages options \<noteq> CopyAllImages
         \<and> MultipleImages options \<noteq> CopyOnlyCurrentRuntimeImage then
        (Some (Errorf (''Invalid value for options.MultipleImages: ''
                 @ showInt (MultipleImages options))), s, [])
      else
        (case NewImageDestination destRef (DestinationCtx options) of
           Inl err \<Rightarrow>
             (Some (Wrap err (''Error initializing destination '' @ ImageName destRef)), s, [])
         | Inr destination \<Rightarrow>
             (case Image_withDestination L policyContext srcRef options destination s of
                (retErr, s1, tr) \<Rightarrow>
                  (case CloseDest destination s1 of
                     (cerr, s2) \<Rightarrow>
                       ((case cerr of
                           Some err \<Rightarrow> errors_Wrap retErr ('' (dest: '' @ Error err @ '')'')
                         | None \<Rightarrow> retErr),
                        s2, tr @ [EvCloseDest])))))"

section \<open>Worked instances\<close>

text \<open>
  A small world for the instances below. The hash of a byte string is its reverse; the
  compression probe reads up to eight bytes and knows the framing \<open>GZ\<close>; the destination
  stores what it is given, reading a blob in reads of 64 bytes, and counts the manifests
  it has stored; the source holds one image with the layer \<open>abc\<close> and the config \<open>cfg\<close>.
\<close>

definition demoDigests :: digestlib where
  "demoDigests = \<lparr>Validate = (\<lambda>d. if d = [] then Some (Opaque ''invalid digest'') else None),
                  Available = (\<lambda>a. True),
                  FromBytes = (\<lambda>a b. a @ '':'' @ rev b)\<rparr>"

fun readAll :: "nat \<Rightarrow> bytes \<Rightarrow> 's \<Rightarrow> ((error + BlobInfo) \<times> 's) consumer" where
  "readAll n acc s =
     (if n = 0 then Done (Inl (Opaque ''blob too large''), s)
      else Rd 64 (\<lambda>r. case snd r of
                         None \<Rightarrow> readAll (n - 1) (acc @ fst r) s
                       | Some e \<Rightarrow>
                           if e = EOF then
                             Done (Inr \<lparr>Digest = ''rev:'' @ rev (acc @ fst r),
                                        Size = int (length (acc @ fst r)), URLs = None, MediaType = []\<rparr>, s)
                           else Done (Inl e, s)))"

definition layer1 :: BlobInfo where
  "layer1 = \<lparr>Digest = ''rev:cba'', Size = 3, URLs = None, MediaType = []\<rparr>"

definition demoImage :: Image where
  "demoImage = ParsedImage
     (Inr (''{manifest}'', MediaTypeImageManifest))
     \<lparr>Digest = ''rev:gfc'', Size = 3, URLs = None, MediaType = []\<rparr>
     (Inr ''cfg'')
     (Inr ''linux'')
     (Some [layer1])
     None
     (\<lambda>r. False)
     (\<lambda>u. False)
     (\<lambda>u. Inl (Opaque ''no conversion''))
     (Inr [])"

definition demoLib :: lib where
  "demoLib = \<lparr>digests = demoDigests,
              manifest_Digest = (\<lambda>b. Inr (''rev:'' @ rev b)),
              DetectCompression =
                Rd 8 (\<lambda>r. case snd r of
                             None \<Rightarrow> Done (Inr (if take 2 (fst r) = ''GZ'' then Some ''gzip'' else None))
                           | Some e \<Rightarrow> if e = EOF then Done (Inr None) else Done (Inl e)),
              decompress = (\<lambda>z b. Inr (drop 2 b)),
              gzip = (\<lambda>b. ''GZ'' @ b),
              createSignature = (\<lambda>m k. Inr (''signed by '' @ k)),
              GOOS = ''linux'',
              FromUnparsedImage = (\<lambda>ctx inst. Inr demoImage),
              ListFromBlob = (\<lambda>b t. Inl (Opaque ''not a list'')),
              ChooseInstance = (\<lambda>l ctx. Inl (Opaque ''no instance'')),
              UpdateInstances = (\<lambda>l u. Inr (l\<lparr>Instances := u\<rparr>)),
              ToSchema2List = (\<lambda>l. Inr (l\<lparr>MIMEType := DockerV2ListMediaType\<rparr>)),
              ToOCI1Index = (\<lambda>l. Inr (l\<lparr>MIMEType := MediaTypeImageIndex\<rparr>)),
              Serialize = (\<lambda>l. Inr (''{list '' @ MIMEType l @ ''}''))\<rparr>"

definition demoDest :: "nat ImageDestination" where
  "demoDest = \<lparr>DestImageName = ''dir:/out'',
               SupportedManifestMIMETypes = [MediaTypeImageManifest],
               SupportsSignatures = None,
               ShouldCompressLayers = False,
               AcceptsForeignLayerURLs = False,
               MustMatchRuntimeOS = False,
               DockerReference = None,
               PutBlob = (\<lambda>info s. readAll 4 [] s),
               HasBlob = (\<lambda>info s. (Inr (False, - 1), s)),
               ReapplyBlob = (\<lambda>info s. (Inr info, s)),
               PutManifest = (\<lambda>m i s. (None, Suc s)),
               PutSignatures = (\<lambda>sg i s. (None, s)),
               Commit = (\<lambda>s. (None, s)),
               CloseDest = (\<lambda>s. (None, s))\<rparr>"

definition demoSource :: "nat ImageSource" where
  "demoSource = \<lparr>SourceImageName = ''dir:/in'',
                 UnparsedManifest = (\<lambda>i. Inr (''{manifest}'', MediaTypeImageManifest)),
                 GetSignatures = (\<lambda>i. Inr []),
                 GetBlob = (\<lambda>info s. (Inr ([(''abc'', None)], 3), s)),
                 CloseSource = (\<lambda>s. (None, s))\<rparr>"

definition demoPolicy :: PolicyContext where
  "demoPolicy = (\<lambda>i. (True, None))"

definition demoCopier :: "nat copier" where
  "demoCopier = \<lparr>copiedBlobs = Map.empty, cachedDiffIDs = Map.empty, dest = demoDest,
                 rawSource = demoSource, store = 0, trace = []\<rparr>"

definition demoRef :: "nat ImageReference" where
  "demoRef = \<lparr>ImageName = ''dir:/x'', NewImageDestination = (\<lambda>ctx. Inr demoDest),
              NewImageSource = (\<lambda>ctx. Inr demoSource)\<rparr>"

lemmas demo_defs = demoDigests_def layer1_def demoImage_def demoLib_def demoDest_def demoSource_def
  demoPolicy_def demoCopier_def demoRef_def

lemmas model_defs = copyOneImage_def copyOneImage_setup_def copyOneImage_manifest_def
  copyUpdatedConfigAndManifest_def copyConfig_def copyBlobFromStream_def copyLayers_def
  copyLayers_body_def copyLayer_def copyLayerFromStream_def computeDiffID_def
  dest_PutBlob_def dest_PutBlob_compressed_def dest_HasBlob_def dest_ReapplyBlob_def
  rawSource_GetBlob_def dest_PutManifest_def dest_PutSignatures_def dest_Commit_def
  newDigestingReader_def digestingReader_Read_def multi_Read_def destStream_Read_def
  peek_Read_def Hash_Write_def Digester_Digest_def Algorithm_def lookupDigest_def
  isMultiImage_def MIMETypeIsMultiImage_def determineManifestConversion_def negotiate_def
  orderedCandidates_def preferredManifestMIMETypes_def updateEmbeddedDockerReference_def
  checkImageDestinationForCurrentRuntimeOS_def noUpdates_def layerDigestsDiffer_def
  elems_def errors_Wrap_def BlobInfo0_def bytes_NewReader_def Options0_def Canonical_def
  DockerV2Schema2MediaType_def MediaTypeImageManifest_def DockerV2Schema1SignedMediaType_def
  DockerV2Schema1MediaType_def DockerV2ListMediaType_def MediaTypeImageIndex_def
  Image_def Image_withDestination_def Image_copy_def CopyAllImages_def
  CopyOnlyCurrentRuntimeImage_def

section \<open>Properties of the digesting reader\<close>

lemma digestingReader_Read_written:
  "digestingReader_Read D d n = (r, d') \<Longrightarrow>
   written (digester d') = written (digester d) @ fst (fst (stream_Read (source d) n))"
  by (auto simp: digestingReader_Read_def Hash_Write_def Let_def
           split: prod.splits if_splits)

text \<open>
  C2. When the read of the source that reaches end-of-input leaves the digester with a
  digest other than the expected one, \<open>Read\<close> returns no bytes and an error whose text
  holds the expected and the actual digest, and the reader's \<open>validationFailed\<close> flag
  is set. The digest is the one of all bytes the reader has taken from its source.
\<close>

theorem digestingReader_Read_mismatch:
  assumes eof: "stream_Read (source d) n = ((p, Some EOF), src')"
    and actual: "actual = FromBytes D (algorithm (digester d)) (written (digester d) @ p)"
    and differs: "actual \<noteq> expectedDigest d"
  shows "\<exists>d'. digestingReader_Read D d n =
           (([], Some (Errorf (''Digest did not match, expected '' @ expectedDigest d
                                @ '', got '' @ actual))), d')
         \<and> validationFailed d'
         \<and> written (digester d') = written (digester d) @ p"
  using assms
  by (cases "p = []")
     (simp_all add: digestingReader_Read_def Hash_Write_def Digester_Digest_def Let_def)

theorem digestingReader_Read_mismatch_witness:
  "\<exists>d'. digestingReader_Read demoDigests
          \<lparr>source = [(''bc'', Some EOF)], digester = \<lparr>algorithm = ''rev'', written = ''a''\<rparr>,
           expectedDigest = ''rev:xyz'', validationFailed = False\<rparr> 8 =
          (([], Some (Errorf ''Digest did not match, expected rev:xyz, got rev:cba'')), d')
        \<and> validationFailed d' \<and> written (digester d') = ''abc''"
  using digestingReader_Read_mismatch
    [of "\<lparr>source = [(''bc'', Some EOF)], digester = \<lparr>algorithm = ''rev'', written = ''a''\<rparr>,
           expectedDigest = ''rev:xyz'', validationFailed = False\<rparr>"
        8 "''bc''" "[]" "''rev:cba''" demoDigests]
  by (simp add: demoDigests_def)

section \<open>Properties of the copy of one layer\<close>




definition demoImageCopier :: imageCopier where
  "demoImageCopier =
     \<lparr>manifestUpdates = noUpdates \<lparr>info_LayerInfos = None, LayerDiffIDs = None\<rparr>,
      src = demoImage, diffIDsAreNeeded = False, canModifyManifest = True\<rparr>"


text \<open>
  C6. A layer that the destination reports present, with no DiffID needed. If the source
  size is not -1 and differs from the size the destination reports, the copy fails with
  the size error, after \<open>HasBlob\<close> alone. Otherwise \<open>ReapplyBlob\<close> is called with the
  source info at the reported size, and the copy returns its \<open>BlobInfo\<close> with the cached
  DiffID (empty if there is none), or its error, wrapped; the only calls made are
  \<open>HasBlob\<close> and \<open>ReapplyBlob\<close>: the blob is not fetched from the source.
\<close>

theorem copyLayer_skip_path:
  assumes has: "HasBlob (dest c) srcInfo (store c) = (Inr (True, extantBlobSize), s1)"
    and noDiffID: "\<not> (diffIDsAreNeeded ic \<and> lookupDigest (cachedDiffIDs c) (Digest srcInfo) = [])"
    and reapply: "ReapplyBlob (dest c) (srcInfo\<lparr>Size := extantBlobSize\<rparr>) s1 = (r, s2)"
  shows "copyLayer L ic srcInfo c =
           (if Size srcInfo \<noteq> - 1 \<and> Size srcInfo \<noteq> extantBlobSize then
              (Inl (Errorf (''Error: blob '' @ Digest srcInfo @ '' is already present, but with size ''
                      @ showInt extantBlobSize @ '' instead of '' @ showInt (Size srcInfo))),
               c\<lparr>store := s1, trace := trace c @ [EvHasBlob srcInfo]\<rparr>)
            else
              ((case r of
                  Inl err \<Rightarrow> Inl (Wrap err (''Error reapplying blob '' @ Digest srcInfo @ '' at destination''))
                | Inr blobinfo \<Rightarrow> Inr (blobinfo, lookupDigest (cachedDiffIDs c) (Digest srcInfo))),
               c\<lparr>store := s2,
                 trace := trace c @ [EvHasBlob srcInfo, EvReapplyBlob (srcInfo\<lparr>Size := extantBlobSize\<rparr>)]\<rparr>))"
  using assms
  by (auto simp: copyLayer_def dest_HasBlob_def dest_ReapplyBlob_def Let_def split: sum.splits)

definition presentCopier :: "nat copier" where
  \<comment> \<open>a destination that has every blob, with 3 bytes\<close>
  "presentCopier = demoCopier\<lparr>dest := demoDest\<lparr>HasBlob := (\<lambda>info s. (Inr (True, 3), s))\<rparr>\<rparr>"

theorem copyLayer_skip_path_witness:
  "copyLayer demoLib demoImageCopier (layer1\<lparr>Size := - 1\<rparr>) presentCopier =
     (Inr (layer1, []),
      presentCopier\<lparr>store := 0, trace := [EvHasBlob (layer1\<lparr>Size := - 1\<rparr>), EvReapplyBlob layer1]\<rparr>)
   \<and> copyLayer demoLib demoImageCopier (layer1\<lparr>Size := 7\<rparr>) presentCopier =
     (Inl (Errorf ''Error: blob rev:cba is already present, but with size 3 instead of 7''),
      presentCopier\<lparr>store := 0, trace := [EvHasBlob (layer1\<lparr>Size := 7\<rparr>)]\<rparr>)"
  using copyLayer_skip_path
          [of presentCopier "layer1\<lparr>Size := - 1\<rparr>" 3 0 demoImageCopier "Inr layer1" 0 demoLib]
        copyLayer_skip_path
          [of presentCopier "layer1\<lparr>Size := 7\<rparr>" 3 0 demoImageCopier
              "Inr (layer1\<lparr>Size := 3\<rparr>)" 0 demoLib]
  by (simp add: presentCopier_def demoCopier_def demoDest_def demoImageCopier_def layer1_def
        lookupDigest_def showInt_def digitChar_def)

section \<open>Properties of the copy of one image\<close>

text \<open>
  C5. The claim fails at a target \<open>windows\<close> and an image whose operating system is
  neither \<open>windows\<close> nor \<open>linux\<close>: the two differ in being \<open>windows\<close>, and the image
  is accepted.
\<close>

definition darwinImage :: Image where
  "darwinImage = ParsedImage (Inr (''{manifest}'', MediaTypeImageManifest)) BlobInfo0 (Inr [])
     (Inr ''darwin'') None None (\<lambda>r. False) (\<lambda>u. False) (\<lambda>u. Inl (Opaque ''no conversion''))
     (Inr [])"

definition windowsCtx :: SystemContext where
  "windowsCtx = \<lparr>OSChoice = ''windows'', ArchitectureChoice = []\<rparr>"

theorem runtimeOS_windows_accepts_other_counterexample:
  "MustMatchRuntimeOS (demoDest\<lparr>MustMatchRuntimeOS := True\<rparr>)
   \<and> OCIConfig darwinImage = Inr ''darwin''
   \<and> wantedOS demoLib (Some windowsCtx) = ''windows''
   \<and> ((''darwin'' = ''windows'') \<noteq> (''windows'' = ''windows''))
   \<and> checkImageDestinationForCurrentRuntimeOS demoLib (Some windowsCtx) darwinImage
        (demoDest\<lparr>MustMatchRuntimeOS := True\<rparr>) = None"
  by (simp add: checkImageDestinationForCurrentRuntimeOS_def wantedOS_def windowsCtx_def
        darwinImage_def demoDest_def demoLib_def)

text \<open>
  C5, amended. When the destination requires a matching runtime operating system and
  the configuration of the image parses, the image is rejected exactly when the target
  is \<open>windows\<close> and the image is \<open>linux\<close>, or the target is not \<open>windows\<close> and the
  image is \<open>windows\<close>. Every rejection is one where exactly one of the two is
  \<open>windows\<close>.
\<close>

theorem runtimeOS_rejected_iff:
  assumes "MustMatchRuntimeOS destination" and "OCIConfig srcImage = Inr os"
  shows "((checkImageDestinationForCurrentRuntimeOS L ctx srcImage destination \<noteq> None) =
          (wantedOS L ctx = ''windows'' \<and> os = ''linux''
           \<or> wantedOS L ctx \<noteq> ''windows'' \<and> os = ''windows''))
       \<and> (checkImageDestinationForCurrentRuntimeOS L ctx srcImage destination \<noteq> None \<longrightarrow>
            (os = ''windows'') \<noteq> (wantedOS L ctx = ''windows''))"
  using assms
  by (auto simp: checkImageDestinationForCurrentRuntimeOS_def Let_def
           split: option.splits if_splits)

theorem runtimeOS_rejected_iff_witness:
  "checkImageDestinationForCurrentRuntimeOS demoLib (Some windowsCtx) demoImage
     (demoDest\<lparr>MustMatchRuntimeOS := True\<rparr>)
     = Some (Errorf (''image operating system ''
               @ quote ''linux'' @ '' cannot be used on '' @ quote ''windows''))
   \<and> checkImageDestinationForCurrentRuntimeOS demoLib None
       (ParsedImage (Inr ([], [])) BlobInfo0 (Inr []) (Inr ''windows'') None None
          (\<lambda>r. False) (\<lambda>u. False) (\<lambda>u. Inl EOF) (Inr []))
       (demoDest\<lparr>MustMatchRuntimeOS := True\<rparr>) \<noteq> None"
  using runtimeOS_rejected_iff
          [of "demoDest\<lparr>MustMatchRuntimeOS := True\<rparr>" demoImage "''linux''" demoLib
              "Some windowsCtx"]
        runtimeOS_rejected_iff
          [of "demoDest\<lparr>MustMatchRuntimeOS := True\<rparr>"
              "ParsedImage (Inr ([], [])) BlobInfo0 (Inr []) (Inr ''windows'') None None
                 (\<lambda>r. False) (\<lambda>u. False) (\<lambda>u. Inl EOF) (Inr [])"
              "''windows''" demoLib None]
  by (simp add: checkImageDestinationForCurrentRuntimeOS_def wantedOS_def windowsCtx_def
        demoImage_def demoDest_def demoLib_def)




section \<open>Properties of the entry point\<close>

text \<open>
  C10. With valid options and both handles open, if the copy and the commit return no
  error, \<open>Image\<close> returns no error, whatever the two \<open>Close\<close> calls return: a \<open>Close\<close>
  error is wrapped around the nil \<open>retErr\<close>, which gives nil.
\<close>

theorem Image_close_error_discarded:
  assumes valid: "MultipleImages options = CopyAllImages
                  \<or> MultipleImages options = CopyOnlyCurrentRuntimeImage"
    and newDest: "NewImageDestination destRef (DestinationCtx options) = Inr destination"
    and newSrc: "NewImageSource srcRef (SourceCtx options) = Inr rawSrc"
    and copy: "Image_copy L policyContext options
                 \<lparr>copiedBlobs = Map.empty, cachedDiffIDs = Map.empty, dest = destination,
                  rawSource = rawSrc, store = s, trace = []\<rparr> = (None, c1)"
  shows "fst (Image L policyContext destRef srcRef (Some options) s) = None"
  using assms
  by (auto simp: Image_def Image_withDestination_def errors_Wrap_def Let_def
           split: prod.splits option.splits)

definition failingCloseRef :: "nat ImageReference" where
  \<comment> \<open>handles whose \<open>Close\<close> fails\<close>
  "failingCloseRef =
     \<lparr>ImageName = ''dir:/x'',
      NewImageDestination =
        (\<lambda>ctx. Inr (demoDest\<lparr>CloseDest := (\<lambda>s. (Some (Opaque ''close failed''), s))\<rparr>)),
      NewImageSource =
        (\<lambda>ctx. Inr (demoSource\<lparr>CloseSource := (\<lambda>s. (Some (Opaque ''close failed''), s))\<rparr>))\<rparr>"

theorem Image_close_error_discarded_witness:
  "fst (Image demoLib demoPolicy failingCloseRef failingCloseRef (Some Options0) 0) = None
   \<and> fst (CloseDest (demoDest\<lparr>CloseDest := (\<lambda>s. (Some (Opaque ''close failed''), s))\<rparr>) (1::nat))
       = Some (Opaque ''close failed'')
   \<and> fst (snd (Image demoLib demoPolicy failingCloseRef failingCloseRef (Some Options0) 0)) = 1"
  using Image_close_error_discarded
          [of Options0 failingCloseRef
              "demoDest\<lparr>CloseDest := (\<lambda>s. (Some (Opaque ''close failed''), s))\<rparr>"
              failingCloseRef
              "demoSource\<lparr>CloseSource := (\<lambda>s. (Some (Opaque ''close failed''), s))\<rparr>"
              demoLib demoPolicy 0
              "snd (Image_copy demoLib demoPolicy Options0
                 \<lparr>copiedBlobs = Map.empty, cachedDiffIDs = Map.empty,
                  dest = demoDest\<lparr>CloseDest := (\<lambda>s. (Some (Opaque ''close failed''), s))\<rparr>,
                  rawSource = demoSource\<lparr>CloseSource := (\<lambda>s. (Some (Opaque ''close failed''), s))\<rparr>,
                  store = 0, trace = []\<rparr>)"]
  by (simp add: failingCloseRef_def demo_defs model_defs Let_def)

end
